theory Spec2Isabelle
  imports Main "HOL-Library.Signed_Division"
begin

section \<open>Amounts: decimal strings and big integers\<close>

text \<open>
  The service in \<^verbatim>\<open>src/services/near.ts\<close> keeps every token amount as a decimal
  string and computes on it with JavaScript's \<^verbatim>\<open>BigInt\<close>. A \<^verbatim>\<open>BigInt\<close> is an unbounded
  integer, modelled by \<^typ>\<open>int\<close>; a string is a \<^typ>\<open>string\<close>. Every exception the
  code can raise is a value of type \<open>error\<close>, and a computation that may raise has
  the type \<open>error + 'a\<close>.

  \<^item> \<open>SyntaxError\<close>: \<^verbatim>\<open>BigInt(s)\<close> on a string that is not an integer literal;
  \<^item> \<open>TypeError\<close>: a property read on \<^verbatim>\<open>null\<close>, \<^verbatim>\<open>BigInt(undefined)\<close>, \<^verbatim>\<open>reduce\<close> of
    an empty array with no initial value;
  \<^item> \<open>DivisionByZero\<close>: the \<^verbatim>\<open>RangeError\<close> of \<^verbatim>\<open>/\<close> and \<^verbatim>\<open>%\<close> on a zero \<^verbatim>\<open>BigInt\<close>;
  \<^item> \<open>InvalidCount\<close>: the \<^verbatim>\<open>RangeError\<close> of \<^verbatim>\<open>String.prototype.repeat\<close> on a negative count;
  \<^item> \<open>Error msg\<close>: \<^verbatim>\<open>throw new Error(msg)\<close>;
  \<^item> \<open>Rejected msg\<close>: a promise of the RPC or wallet library that rejects.
\<close>

datatype error =
    SyntaxError
  | TypeError
  | DivisionByZero
  | InvalidCount
  | Error string
  | Rejected string

definition bindE :: "error + 'a \<Rightarrow> ('a \<Rightarrow> error + 'b) \<Rightarrow> error + 'b" where
  "bindE m f = (case m of Inl e \<Rightarrow> Inl e | Inr x \<Rightarrow> f x)"

text \<open>\<^verbatim>\<open>Array.prototype.map\<close> with a callback that may throw: the first throw ends the map.\<close>

fun mapE :: "('a \<Rightarrow> error + 'b) \<Rightarrow> 'a list \<Rightarrow> error + 'b list" where
  "mapE f [] = Inr []"
| "mapE f (x # xs) = bindE (f x) (\<lambda>y. bindE (mapE f xs) (\<lambda>ys. Inr (y # ys)))"

subsection \<open>Decimal strings\<close>

text \<open>
  The ten decimal digits: a digit's character is its place in the table, and a
  character's value is the number of table entries before it.
\<close>

definition decimal_digits :: string where
  "decimal_digits = ''0123456789''"

definition digit_char :: "nat \<Rightarrow> char" where
  "digit_char d = decimal_digits ! (min d 9)"

definition is_digit :: "char \<Rightarrow> bool" where
  "is_digit c = (c \<in> set decimal_digits)"

definition digit_val :: "char \<Rightarrow> nat" where
  "digit_val c = length (takeWhile (\<lambda>x. x \<noteq> c) decimal_digits)"

text \<open>The decimal digits of a natural number, most significant first.\<close>

function digits :: "nat \<Rightarrow> string" where
  "digits n = (if n < 10 then [digit_char n] else digits (n div 10) @ [digit_char (n mod 10)])"
  by pat_completeness auto
termination
  by (relation "measure id") auto

declare digits.simps [simp del]

text \<open>\<^verbatim>\<open>BigInt.prototype.toString()\<close>: the canonical decimal rendering.\<close>

definition toString :: "int \<Rightarrow> string" where
  "toString i = (if i < 0 then CHR ''-'' # digits (nat (- i)) else digits (nat i))"

definition parse_digits :: "string \<Rightarrow> nat" where
  "parse_digits s = foldl (\<lambda>acc c. 10 * acc + digit_val c) 0 s"

definition all_digits :: "string \<Rightarrow> bool" where
  "all_digits s = (s \<noteq> [] \<and> list_all is_digit s)"

text \<open>
  \<^verbatim>\<open>BigInt(s)\<close> on a string: the empty string is \<^verbatim>\<open>0n\<close>, a run of decimal digits with
  an optional sign is that integer, and any other string raises \<^verbatim>\<open>SyntaxError\<close>.
  JavaScript also trims white space and reads the prefixes \<^verbatim>\<open>0x\<close>, \<^verbatim>\<open>0o\<close> and \<^verbatim>\<open>0b\<close>;
  amounts are decimal strings, and the model rejects those other spellings.
\<close>

definition BigInt :: "string \<Rightarrow> error + int" where
  "BigInt s =
     (case s of
        [] \<Rightarrow> Inr 0
      | c # cs \<Rightarrow>
          if c = CHR ''-'' \<and> all_digits cs then Inr (- int (parse_digits cs))
          else if c = CHR ''+'' \<and> all_digits cs then Inr (int (parse_digits cs))
          else if all_digits s then Inr (int (parse_digits s))
          else Inl SyntaxError)"

text \<open>
  \<^verbatim>\<open>BigInt(v)\<close> on a value that may be \<^verbatim>\<open>undefined\<close> or \<^verbatim>\<open>null\<close> (a missing array element or
  object field): \<^verbatim>\<open>TypeError\<close>.
\<close>

definition BigInt_opt :: "string option \<Rightarrow> error + int" where
  "BigInt_opt v = (case v of None \<Rightarrow> Inl TypeError | Some s \<Rightarrow> BigInt s)"

text \<open>
  The \<^verbatim>\<open>BigInt\<close> operators \<^verbatim>\<open>/\<close> and \<^verbatim>\<open>%\<close> truncate toward zero and raise on a zero
  divisor.
\<close>

definition bigint_div :: "int \<Rightarrow> int \<Rightarrow> error + int" where
  "bigint_div a b = (if b = 0 then Inl DivisionByZero else Inr (a sdiv b))"

definition bigint_rem :: "int \<Rightarrow> int \<Rightarrow> error + int" where
  "bigint_rem a b = (if b = 0 then Inl DivisionByZero else Inr (a smod b))"

section \<open>Amount arithmetic and the AMM estimates\<close>

text \<open>
  \<^verbatim>\<open>
  roundUpToNearest(x: string, m: string): string {
      const rest: bigint = BigInt(x) % BigInt(m)
      const toAdd: bigint = rest === BigInt(0) ? BigInt(0) : BigInt(m)
      return (BigInt(x) - rest + toAdd).toString()
  }
  \<close>
\<close>

definition roundUpToNearest :: "string \<Rightarrow> string \<Rightarrow> error + string" where
  "roundUpToNearest x m =
     bindE (BigInt x) (\<lambda>bx.
     bindE (BigInt m) (\<lambda>bm.
     bindE (bigint_rem bx bm) (\<lambda>rest.
       let toAdd = (if rest = 0 then 0 else bm)
       in Inr (toString (bx - rest + toAdd)))))"

text \<open>
  \<^verbatim>\<open>
  calcMinLPAmountsOut(user_shares, total_shares, amounts) {
      return amounts.map(amount => {
          let exact_amount = (BigInt(amount) * BigInt(user_shares)) / BigInt(total_shares)
          return ((exact_amount * BigInt("999")) / BigInt("1000")).toString()
      })
  }
  \<close>
\<close>

definition calcMinLPAmountsOut :: "string \<Rightarrow> string \<Rightarrow> string list \<Rightarrow> error + string list" where
  "calcMinLPAmountsOut user_shares total_shares amounts =
     mapE (\<lambda>amount.
       bindE (BigInt amount) (\<lambda>a.
       bindE (BigInt user_shares) (\<lambda>u.
       bindE (BigInt total_shares) (\<lambda>t.
       bindE (bigint_div (a * u) t) (\<lambda>exact_amount.
       bindE (BigInt ''999'') (\<lambda>k999.
       bindE (BigInt ''1000'') (\<lambda>k1000.
       bindE (bigint_div (exact_amount * k999) k1000) (\<lambda>r.
         Inr (toString r))))))))) amounts"

text \<open>
  \<^verbatim>\<open>Array.prototype.reduce(callback)\<close> with no initial value: the accumulator starts as
  element 0 and the callback is first called at index 1; an empty array raises
  \<^verbatim>\<open>TypeError\<close>.
\<close>

fun reduce_from :: "('a \<Rightarrow> 'a \<Rightarrow> nat \<Rightarrow> error + 'a) \<Rightarrow> 'a \<Rightarrow> 'a list \<Rightarrow> nat \<Rightarrow> error + 'a" where
  "reduce_from f acc [] i = Inr acc"
| "reduce_from f acc (x # xs) i = bindE (f acc x i) (\<lambda>acc'. reduce_from f acc' xs (Suc i))"

definition reduce_no_init :: "('a \<Rightarrow> 'a \<Rightarrow> nat \<Rightarrow> error + 'a) \<Rightarrow> 'a list \<Rightarrow> error + 'a" where
  "reduce_no_init f xs = (case xs of [] \<Rightarrow> Inl TypeError | x # rest \<Rightarrow> reduce_from f x rest 1)"

text \<open>\<^verbatim>\<open>xs[i]\<close> on an array: \<^verbatim>\<open>undefined\<close> out of range.\<close>

definition at_index :: "'a list \<Rightarrow> nat \<Rightarrow> 'a option" where
  "at_index xs i = (if i < length xs then Some (xs ! i) else None)"

text \<open>
  \<^verbatim>\<open>
  calcLpSharesFromAmounts(pool_total_shares, pool_amounts, lp_amounts) {
      let lp_shares_estimate: string = pool_amounts.reduce((prevValue, poolAmt, index) => {
          let currValue = (BigInt(pool_total_shares) * BigInt(lp_amounts[index])) / BigInt(poolAmt)
          return BigInt(prevValue) < currValue ? prevValue : currValue.toString()
      })
      lp_shares_estimate = ((BigInt(lp_shares_estimate) * BigInt("997")) / BigInt("1000")).toString()
      return lp_shares_estimate
  }
  \<close>
\<close>

definition calcLpSharesFromAmounts :: "string \<Rightarrow> string list \<Rightarrow> string list \<Rightarrow> error + string" where
  "calcLpSharesFromAmounts pool_total_shares pool_amounts lp_amounts =
     bindE (reduce_no_init (\<lambda>prevValue poolAmt index.
              bindE (BigInt pool_total_shares) (\<lambda>t.
              bindE (BigInt_opt (at_index lp_amounts index)) (\<lambda>l.
              bindE (BigInt poolAmt) (\<lambda>p.
              bindE (bigint_div (t * l) p) (\<lambda>currValue.
              bindE (BigInt prevValue) (\<lambda>pv.
                Inr (if pv < currValue then prevValue else toString currValue)))))))
            pool_amounts) (\<lambda>lp_shares_estimate.
     bindE (BigInt lp_shares_estimate) (\<lambda>e.
     bindE (BigInt ''997'') (\<lambda>k997.
     bindE (BigInt ''1000'') (\<lambda>k1000.
     bindE (bigint_div (e * k997) k1000) (\<lambda>r.
       Inr (toString r))))))"

text \<open>
  \<^verbatim>\<open>
  estimateStnearOut(amount: string, price: string, accuracy = 5): string {
      return BigInt(price) === BigInt(0)
          ? "0"
          : nearAPI.utils.format.parseNearAmount(
                (Number(BigInt(amount + "0".repeat(accuracy)) / BigInt(price)) / 10 ** accuracy).toString()
            )!
  }
  \<close>
  The conversion of the quotient to a floating-point number, its division by
  \<^verbatim>\<open>10 ** accuracy\<close>, its printing and the library's \<^verbatim>\<open>parseNearAmount\<close> are not integer
  arithmetic: they are the parameter \<open>formatQuotient\<close>, which gets the quotient and the
  accuracy.
\<close>

definition repeat_zero :: "int \<Rightarrow> error + string" where
  "repeat_zero n = (if n < 0 then Inl InvalidCount else Inr (replicate (nat n) CHR ''0''))"

text \<open>
  An optional parameter with a default (\<^verbatim>\<open>accuracy = 5\<close>, \<^verbatim>\<open>nonceOffset = 1\<close>) is an
  \<open>option\<close>: \<open>None\<close> is the call that leaves the argument out.
\<close>

definition estimateStnearOut ::
  "(int \<Rightarrow> int \<Rightarrow> error + string) \<Rightarrow> string \<Rightarrow> string \<Rightarrow> int option \<Rightarrow> error + string" where
  "estimateStnearOut formatQuotient amount price accuracy_arg =
     (let accuracy = (case accuracy_arg of None \<Rightarrow> 5 | Some n \<Rightarrow> n) in
      bindE (BigInt price) (\<lambda>p.
        if p = 0 then Inr ''0''
        else
          bindE (repeat_zero accuracy) (\<lambda>zeros.
          bindE (BigInt (amount @ zeros)) (\<lambda>a.
          bindE (BigInt price) (\<lambda>p'.
          bindE (bigint_div a p') (\<lambda>q.
            formatQuotient q accuracy))))))"

section \<open>Actions, transactions and the chain as seen by the service\<close>

text \<open>
  The arguments of a contract call are a JSON object; the result of
  \<^verbatim>\<open>nearAPI.transactions.functionCall(methodName, args, gas, deposit)\<close> is a record of its
  four arguments.
\<close>

datatype json =
    JNull
  | JString string
  | JNumber int
  | JArray "json list"
  | JObject "(string \<times> json) list"

definition json_field :: "json \<Rightarrow> string \<Rightarrow> json option" where
  "json_field j k = (case j of JObject kvs \<Rightarrow> map_of kvs k | _ \<Rightarrow> None)"

record action =
  methodName :: string
  args :: json
  gas :: int
  deposit :: string

definition functionCall :: "string \<Rightarrow> json \<Rightarrow> int \<Rightarrow> string \<Rightarrow> action" where
  "functionCall m a g d = \<lparr>methodName = m, args = a, gas = g, deposit = d\<rparr>"

text \<open>
  \<^verbatim>\<open>nearAPI.transactions.createTransaction(signerId, publicKey, receiverId, nonce, actions,
  blockHash)\<close>: an unsigned transaction for one receiver.
\<close>

record transaction =
  signerId :: string
  publicKey :: string
  receiverId :: string
  nonce :: int
  actions :: "action list"
  blockHash :: "nat list"

definition createTransaction ::
  "string \<Rightarrow> string \<Rightarrow> string \<Rightarrow> int \<Rightarrow> action list \<Rightarrow> nat list \<Rightarrow> transaction" where
  "createTransaction s pk r n as h =
     \<lparr>signerId = s, publicKey = pk, receiverId = r, nonce = n, actions = as, blockHash = h\<rparr>"

text \<open>
  What \<^verbatim>\<open>accessKeyForTransaction\<close> resolves to when a key matches:
  \<^verbatim>\<open>{public_key, access_key: {nonce}}\<close>. The nonce is a JavaScript number holding an
  integer.
\<close>

record access_key_info =
  public_key :: string
  access_key_nonce :: int

text \<open>
  The result of \<^verbatim>\<open>storage_balance_of\<close>: \<^verbatim>\<open>null\<close> for an account that is not registered
  (\<open>None\<close>), else \<^verbatim>\<open>{total, available}\<close>, where a field may be missing or \<^verbatim>\<open>null\<close>.
\<close>

record storage_balance =
  total :: "string option"
  available :: "string option"

text \<open>The result of \<^verbatim>\<open>get_pool\<close>, with the fields the service reads.\<close>

record pool_view =
  total_fee :: int
  amounts_of_pool :: "string list"
  shares_total_supply :: string

text \<open>
  Everything the service reads from outside itself: the signed-in account
  (\<^verbatim>\<open>window.account.accountId\<close>), the contract addresses of \<^verbatim>\<open>window.nearConfig\<close>, the page
  location, the read-only view calls (\<^verbatim>\<open>window.account.viewFunction(contract, method,
  args)\<close>, one field per method, with the result typed as the service uses it), the
  access-key lookup, the latest final block's hash, and the two decoders of the libraries
  (\<^verbatim>\<open>baseDecode\<close> of borsh, \<^verbatim>\<open>PublicKey.from\<close> of near-api-js). A call over the network may
  reject, so it returns \<open>error + _\<close>.

  A JavaScript number is a double. The numbers of the service (a nonce, a nonce offset,
  a pool id) hold integers and are modelled by \<^typ>\<open>int\<close>. Up to \<open>2 ^ 53 - 1\<close> in magnitude
  (\<^verbatim>\<open>Number.MAX_SAFE_INTEGER\<close>) such a number prints as its decimal digits, and a sum is
  exact. Beyond that the double rounds: the rounded sum and the printed form (rounded
  digits, exponent form from \<open>10 ^ 21\<close>) are not computed by the model, they are the last
  two parameters, \<open>Number_add_inexact\<close> and \<open>Number_toString_large\<close>.
\<close>

record env =
  accountId :: string
  ADDRESS_REF_EXCHANGE :: string
  ADDRESS_REF_FARMING :: string
  ADDRESS_METAPOOL :: string
  ADDRESS_WNEAR :: string
  location_href :: string
  view_list_user_seeds :: "string \<Rightarrow> string \<Rightarrow> error + (string \<rightharpoonup> string)"
  view_storage_balance_of :: "string \<Rightarrow> string \<Rightarrow> error + storage_balance option"
  view_get_deposits :: "string \<Rightarrow> string \<Rightarrow> error + (string \<rightharpoonup> string)"
  view_get_pool_shares :: "string \<Rightarrow> int \<Rightarrow> string \<Rightarrow> error + string"
  view_get_pool :: "string \<Rightarrow> int \<Rightarrow> error + pool_view"
  accessKeyForTransaction :: "string \<Rightarrow> action list \<Rightarrow> error + access_key_info option"
  block_final_hash :: "error + string"
  baseDecode :: "string \<Rightarrow> nat list"
  PublicKey_from :: "string \<Rightarrow> string"
  Number_add_inexact :: "int \<Rightarrow> int \<Rightarrow> int"
  Number_toString_large :: "int \<Rightarrow> string"

definition MAX_SAFE_INTEGER :: int where
  "MAX_SAFE_INTEGER = 9007199254740991"

definition safe_integer :: "int \<Rightarrow> bool" where
  "safe_integer n = (\<bar>n\<bar> \<le> MAX_SAFE_INTEGER)"

text \<open>The operator \<^verbatim>\<open>+\<close> on two numbers that hold integers.\<close>

definition Number_add :: "env \<Rightarrow> int \<Rightarrow> int \<Rightarrow> int" where
  "Number_add e a b =
     (if safe_integer a \<and> safe_integer b \<and> safe_integer (a + b) then a + b
      else Number_add_inexact e a b)"

text \<open>A number that holds an integer, printed in a template string.\<close>

definition Number_toString :: "env \<Rightarrow> int \<Rightarrow> string" where
  "Number_toString e n = (if safe_integer n then toString n else Number_toString_large e n)"

text \<open>
  The economic constants of \<^verbatim>\<open>BaseLogic\<close>. \<^verbatim>\<open>parseNearAmount\<close> converts NEAR to
  yoctoNEAR, a factor of \<open>10 ^ 24\<close>: 0.045, 0.005, 0.01 and 0.00125 NEAR.
\<close>

definition FARM_STORAGE_BALANCE :: string where
  "FARM_STORAGE_BALANCE = ''45000000000000000000000''"

definition MIN_DEPOSIT_PER_TOKEN :: string where
  "MIN_DEPOSIT_PER_TOKEN = ''5000000000000000000000''"

definition LP_STORAGE_AMOUNT :: string where
  "LP_STORAGE_AMOUNT = ''10000000000000000000000''"

definition NEW_ACCOUNT_STORAGE_COST :: string where
  "NEW_ACCOUNT_STORAGE_COST = ''1250000000000000000000''"

text \<open>
  \<^verbatim>\<open>Promise.all\<close>: all the results in the order of the array, or a rejection. JavaScript
  rejects with the rejection that happens first in time; the model takes the first in
  the array.
\<close>

fun Promise_all :: "(error + 'a) list \<Rightarrow> error + 'a list" where
  "Promise_all [] = Inr []"
| "Promise_all (p # ps) = bindE p (\<lambda>x. bindE (Promise_all ps) (\<lambda>xs. Inr (x # xs)))"

section \<open>The transaction builder\<close>

text \<open>
  \<^verbatim>\<open>
  async makeTransaction(receiverId, actions, nonceOffset = 1) {
      const [accessKey, block] = await Promise.all([
          window.account.accessKeyForTransaction(receiverId, actions),
          window.near.connection.provider.block({ finality: "final" })
      ])
      if (!accessKey) {
          throw new Error(`Cannot find matching key for transaction sent to ${receiverId}`)
      }
      const blockHash = baseDecode(block.header.hash)
      const publicKey = nearAPI.utils.PublicKey.from(accessKey.public_key)
      const nonce = accessKey.access_key.nonce + nonceOffset
      return nearAPI.transactions.createTransaction(
          window.account.accountId, publicKey, receiverId, nonce, actions, blockHash)
  }
  \<close>
\<close>

definition no_matching_key :: "string \<Rightarrow> error" where
  "no_matching_key r = Error (''Cannot find matching key for transaction sent to '' @ r)"

definition makeTransaction ::
  "env \<Rightarrow> string \<Rightarrow> action list \<Rightarrow> int option \<Rightarrow> error + transaction" where
  "makeTransaction e r as nonceOffset_arg =
     (let nonceOffset = (case nonceOffset_arg of None \<Rightarrow> 1 | Some n \<Rightarrow> n) in
      bindE (accessKeyForTransaction e r as) (\<lambda>accessKey.
      bindE (block_final_hash e) (\<lambda>hash.
        case accessKey of
          None \<Rightarrow> Inl (no_matching_key r)
        | Some k \<Rightarrow>
            Inr (createTransaction (accountId e) (PublicKey_from e (public_key k)) r
                   (Number_add e (access_key_nonce k) nonceOffset) as (baseDecode e hash)))))"

section \<open>Views with a default\<close>

text \<open>
  The result of \<^verbatim>\<open>list_user_seeds\<close> and of \<^verbatim>\<open>get_deposits\<close> is a plain object parsed from
  JSON: a table of its own keys, whose values are strings, on top of the properties that
  every object inherits from \<^verbatim>\<open>Object.prototype\<close>. Reading \<^verbatim>\<open>obj[k]\<close> gives the own value when
  \<open>k\<close> is an own key, else the inherited member when \<open>k\<close> names one (a function, or the
  prototype itself for \<^verbatim>\<open>__proto__\<close>), else \<^verbatim>\<open>undefined\<close> (\<open>None\<close>).
\<close>

datatype js_value =
    JSString string
  | JSInherited string

definition object_prototype_names :: "string list" where
  "object_prototype_names =
     [''constructor'', ''hasOwnProperty'', ''isPrototypeOf'', ''propertyIsEnumerable'',
      ''toLocaleString'', ''toString'', ''valueOf'', ''__proto__'',
      ''__defineGetter__'', ''__defineSetter__'', ''__lookupGetter__'', ''__lookupSetter__'']"

definition get_property :: "(string \<rightharpoonup> string) \<Rightarrow> string \<Rightarrow> js_value option" where
  "get_property obj k =
     (case obj k of
        Some v \<Rightarrow> Some (JSString v)
      | None \<Rightarrow> if k \<in> set object_prototype_names then Some (JSInherited k) else None)"

text \<open>
  \<^verbatim>\<open>v ? v : "0"\<close>: a string is falsy exactly when it is empty, \<^verbatim>\<open>undefined\<close> is falsy, and
  an inherited member (a function or an object) is truthy.
\<close>

definition or_zero :: "js_value option \<Rightarrow> js_value" where
  "or_zero v =
     (case v of
        None \<Rightarrow> JSString ''0''
      | Some (JSString s) \<Rightarrow> if s = [] then JSString ''0'' else JSString s
      | Some (JSInherited n) \<Rightarrow> JSInherited n)"

text \<open>
  \<^verbatim>\<open>
  async getFarmingStake(pool_id: number): Promise<string> {
      const seeds: any = await window.account.viewFunction(
          window.nearConfig.ADDRESS_REF_FARMING, "list_user_seeds",
          { account_id: window.account.accountId })
      return seeds[`${window.nearConfig.ADDRESS_REF_EXCHANGE}@${pool_id}`]
          ? seeds[`${window.nearConfig.ADDRESS_REF_EXCHANGE}@${pool_id}`]
          : "0"
  }
  \<close>
\<close>

definition getFarmingStake :: "env \<Rightarrow> int \<Rightarrow> error + js_value" where
  "getFarmingStake e pool =
     bindE (view_list_user_seeds e (ADDRESS_REF_FARMING e) (accountId e)) (\<lambda>seeds.
       Inr (or_zero (get_property seeds
                       (ADDRESS_REF_EXCHANGE e @ ''@'' @ Number_toString e pool))))"

text \<open>
  \<^verbatim>\<open>
  async getTokenBalancesOnRef(tokens: string[]): Promise<string[]> {
      const refBalances: any = await window.account.viewFunction(
          window.nearConfig.ADDRESS_REF_EXCHANGE, "get_deposits",
          { account_id: window.account.accountId })
      const balances: string[] = tokens.map(token => {
          return refBalances[token] ? refBalances[token] : "0"
      })
      return balances
  }
  \<close>
\<close>

definition getTokenBalancesOnRef :: "env \<Rightarrow> string list \<Rightarrow> error + js_value list" where
  "getTokenBalancesOnRef e tokens =
     bindE (view_get_deposits e (ADDRESS_REF_EXCHANGE e) (accountId e)) (\<lambda>refBalances.
       Inr (map (\<lambda>token. or_zero (get_property refBalances token)) tokens))"

text \<open>
  \<^verbatim>\<open>getPoolInfo(poolID)\<close>: the user's shares (\<^verbatim>\<open>get_pool_shares\<close>), then the pool
  (\<^verbatim>\<open>get_pool\<close>), returned as \<^verbatim>\<open>{ fee, user_shares, total_shares, pool_amounts }\<close>.
\<close>

record pool_info =
  fee :: int
  user_shares :: string
  total_shares :: string
  pool_amounts :: "string list"

definition getPoolInfo :: "env \<Rightarrow> int \<Rightarrow> error + pool_info" where
  "getPoolInfo e poolID =
     bindE (view_get_pool_shares e (ADDRESS_REF_EXCHANGE e) poolID (accountId e)) (\<lambda>us.
     bindE (view_get_pool e (ADDRESS_REF_EXCHANGE e) poolID) (\<lambda>pv.
       Inr \<lparr>fee = total_fee pv, user_shares = us, total_shares = shares_total_supply pv,
            pool_amounts = amounts_of_pool pv\<rparr>))"

section \<open>Recipes that build transactions\<close>

text \<open>
  \<^verbatim>\<open>
  async farmStake(amount: string, poolID: number) {
      const preTXs = []; const storageActions = []; const stakingActions = []
      const storage_balance: any = await window.account.viewFunction(
          window.nearConfig.ADDRESS_REF_FARMING, "storage_balance_of",
          { account_id: window.account.accountId })
      if (!storage_balance ||
          BigInt(storage_balance?.available ?? "0") < BigInt(this.FARM_STORAGE_BALANCE) ||
          BigInt(storage_balance?.available ?? "0") < BigInt(this.MIN_DEPOSIT_PER_TOKEN)) {
          storageActions.push(nearAPI.transactions.functionCall(
              "storage_deposit", {}, 20_000_000_000_000, this.FARM_STORAGE_BALANCE))
      }
      stakingActions.push(nearAPI.transactions.functionCall(
          "mft_transfer_call",
          { receiver_id: window.nearConfig.ADDRESS_REF_FARMING, token_id: `:${poolID}`,
            amount: amount, msg: "" },
          180_000_000_000_000, "1"))
      // only add storage transaction if needed
      if (storageActions.length > 0) {
          preTXs.push(this.makeTransaction(window.nearConfig.ADDRESS_REF_FARMING, storageActions))
      }
      preTXs.push(this.makeTransaction(window.nearConfig.ADDRESS_REF_EXCHANGE, stakingActions))
      return await Promise.all(preTXs)
  }
  \<close>
\<close>

definition available_or_zero :: "storage_balance \<Rightarrow> string" where
  "available_or_zero sb = (case available sb of None \<Rightarrow> ''0'' | Some a \<Rightarrow> a)"

definition farmStake_needs_storage :: "storage_balance option \<Rightarrow> error + bool" where
  "farmStake_needs_storage storage_balance =
     (case storage_balance of
        None \<Rightarrow> Inr True
      | Some sb \<Rightarrow>
          bindE (BigInt (available_or_zero sb)) (\<lambda>a1.
          bindE (BigInt FARM_STORAGE_BALANCE) (\<lambda>f.
            if a1 < f then Inr True
            else
              bindE (BigInt (available_or_zero sb)) (\<lambda>a2.
              bindE (BigInt MIN_DEPOSIT_PER_TOKEN) (\<lambda>m.
                Inr (a2 < m))))))"

definition farmStake :: "env \<Rightarrow> string \<Rightarrow> int \<Rightarrow> error + transaction list" where
  "farmStake e amount poolID =
     bindE (view_storage_balance_of e (ADDRESS_REF_FARMING e) (accountId e)) (\<lambda>storage_balance.
     bindE (farmStake_needs_storage storage_balance) (\<lambda>needed.
       let storageActions =
             (if needed
              then [functionCall ''storage_deposit'' (JObject []) 20000000000000 FARM_STORAGE_BALANCE]
              else []);
           stakingActions =
             [functionCall ''mft_transfer_call''
                (JObject [(''receiver_id'', JString (ADDRESS_REF_FARMING e)),
                          (''token_id'', JString ('':'' @ Number_toString e poolID)),
                          (''amount'', JString amount),
                          (''msg'', JString [])])
                180000000000000 ''1''];
           preTXs =
             (if length storageActions > 0
              then [makeTransaction e (ADDRESS_REF_FARMING e) storageActions None]
              else [])
             @ [makeTransaction e (ADDRESS_REF_EXCHANGE e) stakingActions None]
       in Promise_all preTXs))"

text \<open>
  \<^verbatim>\<open>
  async addLiquidity(positions: { pool_id: number; amounts: string[] }[]) {
      const preTXs = []; const refActions = []
      for (let i = 0; i < positions.length; i++) {
          const { pool_id, amounts } = positions[i]
          // set slippage protection to 0.1%
          const min_lp_amounts: string[] = amounts.map(amount =>
              ((BigInt(amount) * BigInt("999")) / BigInt("1000")).toString())
          refActions.push(nearAPI.transactions.functionCall(
              "add_liquidity",
              { pool_id: pool_id, amounts: amounts, min_amounts: min_lp_amounts },
              100_000_000_000_000, this.LP_STORAGE_AMOUNT))
      }
      preTXs.push(this.makeTransaction(window.nearConfig.ADDRESS_REF_EXCHANGE, refActions))
      const TXs = await Promise.all(preTXs)
      return TXs
  }
  \<close>
\<close>

record position =
  pool_id :: int
  amounts :: "string list"

definition min_lp_amount :: "string \<Rightarrow> error + string" where
  "min_lp_amount s =
     bindE (BigInt s) (\<lambda>a.
     bindE (BigInt ''999'') (\<lambda>k999.
     bindE (BigInt ''1000'') (\<lambda>k1000.
     bindE (bigint_div (a * k999) k1000) (\<lambda>r.
       Inr (toString r)))))"

definition add_liquidity_action :: "position \<Rightarrow> error + action" where
  "add_liquidity_action p =
     bindE (mapE min_lp_amount (amounts p)) (\<lambda>min_lp_amounts.
       Inr (functionCall ''add_liquidity''
              (JObject [(''pool_id'', JNumber (pool_id p)),
                        (''amounts'', JArray (map JString (amounts p))),
                        (''min_amounts'', JArray (map JString min_lp_amounts))])
              100000000000000 LP_STORAGE_AMOUNT))"

definition addLiquidity :: "env \<Rightarrow> position list \<Rightarrow> error + transaction list" where
  "addLiquidity e positions =
     bindE (mapE add_liquidity_action positions) (\<lambda>refActions.
       Promise_all [makeTransaction e (ADDRESS_REF_EXCHANGE e) refActions None])"

text \<open>
  \<^verbatim>\<open>
  async depositTokensOnRef(deposits: { token: string; amount: string }[]) {
      const preTXs = []; const tokensActions = []
      // increase user storage balance on ref before token deposits
      const refActions = []
      const storage_needed: bigint = BigInt(deposits.length) * BigInt(this.MIN_DEPOSIT_PER_TOKEN)
      // query user storage on ref
      const storage_balance: any = await window.account.viewFunction(
          window.nearConfig.ADDRESS_REF_EXCHANGE, "storage_balance_of",
          { account_id: window.account.accountId })
      // check if user storage is enough for depositing n tokens
      if (storage_balance === null || BigInt(storage_balance.available) <= storage_needed) {
          // calculate amount to pay
          const amountMissing: string = (storage_needed - BigInt(storage_balance.available)).toString()
          const amountToPay: string = this.roundUpToNearest(amountMissing, this.MIN_DEPOSIT_PER_TOKEN)
          refActions.push(nearAPI.transactions.functionCall(
              "storage_deposit", {}, 20_000_000_000_000, amountToPay))
      }
      for (let i = 0; i < deposits.length; i++) {
          tokensActions.push({
              address: deposits[i].token,
              actions: [nearAPI.transactions.functionCall(
                  "ft_transfer_call",
                  { receiver_id: window.nearConfig.ADDRESS_REF_EXCHANGE,
                    amount: deposits[i].amount, msg: "" },
                  150_000_000_000_000, "1")]
          })
      }
      // transaction object for ref-finance storage deposit (if needed)
      if (refActions.length >= 1) {
          preTXs.push(this.makeTransaction(window.nearConfig.ADDRESS_REF_EXCHANGE, refActions))
      }
      // transaction objects for deposits. Each token deposit is a separate transaction
      for (let i = 0; i < deposits.length; i++) {
          preTXs.push(this.makeTransaction(tokensActions[i].address, tokensActions[i].actions))
      }
      const TXs = await Promise.all(preTXs)
      return TXs
  }
  \<close>
  Reading \<^verbatim>\<open>storage_balance.available\<close> when \<^verbatim>\<open>storage_balance\<close> is \<^verbatim>\<open>null\<close> raises
  \<^verbatim>\<open>TypeError\<close>: the condition is true by its first disjunct, and the first statement of
  the branch reads the field.
\<close>

record deposit_item =
  token :: string
  amount :: string

definition storage_deposit_actions :: "int \<Rightarrow> storage_balance option \<Rightarrow> error + action list" where
  "storage_deposit_actions storage_needed storage_balance =
     bindE (case storage_balance of
              None \<Rightarrow> Inr True
            | Some sb \<Rightarrow> bindE (BigInt_opt (available sb)) (\<lambda>av. Inr (av \<le> storage_needed)))
       (\<lambda>cond.
          if cond then
            bindE (case storage_balance of
                     None \<Rightarrow> Inl TypeError
                   | Some sb \<Rightarrow> BigInt_opt (available sb)) (\<lambda>av.
            let amountMissing = toString (storage_needed - av) in
            bindE (roundUpToNearest amountMissing MIN_DEPOSIT_PER_TOKEN) (\<lambda>amountToPay.
              Inr [functionCall ''storage_deposit'' (JObject []) 20000000000000 amountToPay]))
          else Inr [])"

definition depositTokensOnRef :: "env \<Rightarrow> deposit_item list \<Rightarrow> error + transaction list" where
  "depositTokensOnRef e deposits =
     bindE (BigInt MIN_DEPOSIT_PER_TOKEN) (\<lambda>m.
     let storage_needed = int (length deposits) * m in
     bindE (view_storage_balance_of e (ADDRESS_REF_EXCHANGE e) (accountId e)) (\<lambda>storage_balance.
     bindE (storage_deposit_actions storage_needed storage_balance) (\<lambda>refActions.
       let tokensActions =
             map (\<lambda>d. (token d,
                        [functionCall ''ft_transfer_call''
                           (JObject [(''receiver_id'', JString (ADDRESS_REF_EXCHANGE e)),
                                     (''amount'', JString (amount d)),
                                     (''msg'', JString [])])
                           150000000000000 ''1''])) deposits;
           preTXs =
             (if length refActions \<ge> 1
              then [makeTransaction e (ADDRESS_REF_EXCHANGE e) refActions None]
              else [])
             @ map (\<lambda>(address, acts). makeTransaction e address acts None) tokensActions
       in Promise_all preTXs)))"

section \<open>Hand-off to the wallet\<close>

text \<open>
  \<^verbatim>\<open>
  async passToWallet(preTXs: Promise<Transaction[]>[]): Promise<void> {
      const TXs = await Promise.all(preTXs)
      window.walletAccount.requestSignTransactions({
          transactions: TXs.flat(),
          callbackUrl: window.location.href
      })
  }
  \<close>
  The effect of the function is the one call of \<^verbatim>\<open>requestSignTransactions\<close>; the model
  returns its argument.
\<close>

record sign_request =
  transactions :: "transaction list"
  callbackUrl :: string

definition passToWallet :: "env \<Rightarrow> (error + transaction list) list \<Rightarrow> error + sign_request" where
  "passToWallet e preTXs =
     bindE (Promise_all preTXs) (\<lambda>TXs.
       Inr \<lparr>transactions = concat TXs, callbackUrl = location_href e\<rparr>)"

text \<open>
  \<^verbatim>\<open>
  STNEAR_WNEAR_POOL_ID: number = 535
  isFarmActive?: boolean

  async stepTwoAction(amounts: { stnearAmount: string; wnearAmount: string }) {
      const { stnearAmount, wnearAmount } = amounts
      const { total_shares, pool_amounts } = await this.getPoolInfo(this.STNEAR_WNEAR_POOL_ID)
      // estimate received LP shares
      const lpShares: string =
          this.calcLpSharesFromAmounts(total_shares, pool_amounts, [stnearAmount, wnearAmount])
      let actions = [
          this.depositTokensOnRef([
              { token: window.nearConfig.ADDRESS_METAPOOL, amount: stnearAmount },
              { token: window.nearConfig.ADDRESS_WNEAR, amount: wnearAmount }]),
          this.addLiquidity([{ pool_id: this.STNEAR_WNEAR_POOL_ID,
                               amounts: [stnearAmount, wnearAmount] }])
      ]
      if (this.isFarmActive) {
          // stake on farm
          actions.push(this.farmStakeV2(lpShares, this.STNEAR_WNEAR_POOL_ID))
      }
      this.passToWallet(actions)
  }
  \<close>
  The field \<^verbatim>\<open>isFarmActive\<close> is optional: \<open>None\<close> is \<^verbatim>\<open>undefined\<close>, which is falsy.
  Neither \<^verbatim>\<open>Logic\<close> nor its base class \<^verbatim>\<open>BaseLogic\<close> defines a method \<^verbatim>\<open>farmStakeV2\<close> (the
  base class has \<^verbatim>\<open>farmStake\<close>), so \<^verbatim>\<open>this.farmStakeV2\<close> is \<^verbatim>\<open>undefined\<close> and calling it raises
  \<^verbatim>\<open>TypeError\<close>. The arguments are evaluated first, without effect; the two promises
  already in \<^verbatim>\<open>actions\<close> are dropped, and \<^verbatim>\<open>passToWallet\<close> is not reached.
\<close>

definition STNEAR_WNEAR_POOL_ID :: int where
  "STNEAR_WNEAR_POOL_ID = 535"

definition stepTwoAction :: "env \<Rightarrow> bool option \<Rightarrow> string \<Rightarrow> string \<Rightarrow> error + sign_request" where
  "stepTwoAction e isFarmActive stnearAmount wnearAmount =
     bindE (getPoolInfo e STNEAR_WNEAR_POOL_ID) (\<lambda>info.
     bindE (calcLpSharesFromAmounts (total_shares info) (pool_amounts info)
              [stnearAmount, wnearAmount]) (\<lambda>lpShares.
       let acts =
             [depositTokensOnRef e
                [\<lparr>token = ADDRESS_METAPOOL e, amount = stnearAmount\<rparr>,
                 \<lparr>token = ADDRESS_WNEAR e, amount = wnearAmount\<rparr>],
              addLiquidity e
                [\<lparr>pool_id = STNEAR_WNEAR_POOL_ID, amounts = [stnearAmount, wnearAmount]\<rparr>]]
       in if isFarmActive = Some True
          then Inl TypeError
          else passToWallet e acts))"

section \<open>An example environment\<close>

text \<open>
  A concrete environment on which the definitions can be run: the account
  \<^verbatim>\<open>alice.near\<close>, the contract addresses of the main network, a pool of two tokens, and
  view calls that succeed. The storage balance that \<^verbatim>\<open>storage_balance_of\<close> reports and
  the key that the access-key lookup finds are its two parameters. The two library
  decoders are stand-ins, and so are the two parameters for large numbers, which the
  examples never reach. In \<open>funded_env\<close> the account has a key and 0.045 NEAR of
  available storage.
\<close>

definition example_env :: "storage_balance option \<Rightarrow> access_key_info option \<Rightarrow> env" where
  "example_env sb key =
     \<lparr>accountId = ''alice.near'',
      ADDRESS_REF_EXCHANGE = ''v2.ref-finance.near'',
      ADDRESS_REF_FARMING = ''v2.ref-farming.near'',
      ADDRESS_METAPOOL = ''meta-pool.near'',
      ADDRESS_WNEAR = ''wrap.near'',
      location_href = ''https://recipes.example/'',
      view_list_user_seeds = (\<lambda>c a. Inr [''v2.ref-finance.near@7'' \<mapsto> ''31'']),
      view_storage_balance_of = (\<lambda>c a. Inr sb),
      view_get_deposits = (\<lambda>c a. Inr [''wrap.near'' \<mapsto> ''12'']),
      view_get_pool_shares = (\<lambda>c p a. Inr ''0''),
      view_get_pool = (\<lambda>c p. Inr \<lparr>total_fee = 30, amounts_of_pool = [''100'', ''200''],
                                      shares_total_supply = ''1000000''\<rparr>),
      accessKeyForTransaction = (\<lambda>r as. Inr key),
      block_final_hash = Inr ''9xQ'',
      baseDecode = (\<lambda>h. [length h]),
      PublicKey_from = (\<lambda>k. k),
      Number_add_inexact = (\<lambda>a b. 0),
      Number_toString_large = (\<lambda>n. [])\<rparr>"

definition example_key :: access_key_info where
  "example_key = \<lparr>public_key = ''ed25519:alice'', access_key_nonce = 41\<rparr>"

definition funded_env :: env where
  "funded_env =
     example_env (Some \<lparr>total = Some ''50000000000000000000000'',
                           available = Some ''45000000000000000000000''\<rparr>)
                 (Some example_key)"

section \<open>Basic facts\<close>

text \<open>Sequencing, and the decimal rendering read back by \<^verbatim>\<open>BigInt\<close>.\<close>

lemma bindE_Inr [simp]: "bindE (Inr x) f = f x" by (simp add: bindE_def)
lemma bindE_Inl [simp]: "bindE (Inl e) f = Inl e" by (simp add: bindE_def)

lemma digits_small: "n < 10 \<Longrightarrow> digits n = [digit_char n]" by (simp add: digits.simps)
lemma digits_big: "\<not> n < 10 \<Longrightarrow> digits n = digits (n div 10) @ [digit_char (n mod 10)]" by (subst digits.simps) simp

lemma digit_cases: "d < 10 \<Longrightarrow> d = 0 \<or> d = 1 \<or> d = 2 \<or> d = 3 \<or> d = 4 \<or> d = 5 \<or> d = 6 \<or> d = 7 \<or> d = 8 \<or> d = (9::nat)"
  by arith

lemma digit_val_digit_char: "d < 10 \<Longrightarrow> digit_val (digit_char d) = d"
  using digit_cases [of d] by (auto simp: digit_val_def digit_char_def decimal_digits_def)

lemma is_digit_digit_char: "is_digit (digit_char d)"
proof -
  have "min d 9 < length decimal_digits" by (simp add: decimal_digits_def)
  then show ?thesis unfolding is_digit_def digit_char_def by (rule nth_mem)
qed

lemma digit_char_not_sign: "digit_char d \<noteq> CHR ''-'' \<and> digit_char d \<noteq> CHR ''+''"
proof -
  have "digit_char d \<in> set decimal_digits"
    using is_digit_digit_char by (simp add: is_digit_def)
  then show ?thesis by (auto simp: decimal_digits_def)
qed

lemma digits_nonempty: "digits n \<noteq> []"
  by (subst digits.simps) simp

lemma digits_all: "list_all is_digit (digits n)"
  by (induction n rule: digits.induct) (subst digits.simps, simp add: is_digit_digit_char)

lemma parse_digits_snoc: "parse_digits (s @ [c]) = 10 * parse_digits s + digit_val c"
  by (simp add: parse_digits_def)

lemma parse_digits_digits: "parse_digits (digits n) = n"
proof (induction n rule: digits.induct)
  case (1 n)
  show ?case
  proof (cases "n < 10")
    case True
    then show ?thesis by (simp add: digits_small parse_digits_def digit_val_digit_char)
  next
    case False
    then have "parse_digits (digits n) = 10 * parse_digits (digits (n div 10)) + digit_val (digit_char (n mod 10))"
      by (simp add: digits_big parse_digits_snoc)
    also have "\<dots> = 10 * (n div 10) + n mod 10"
      using 1 False by (simp add: digit_val_digit_char)
    finally show ?thesis by simp
  qed
qed

lemma hd_digits: "\<exists>d ds. digits n = digit_char d # ds"
proof (induction n rule: digits.induct)
  case (1 n)
  show ?case
  proof (cases "n < 10")
    case True then show ?thesis by (auto simp: digits_small)
  next
    case False
    with 1 obtain d ds where "digits (n div 10) = digit_char d # ds" by blast
    with False show ?thesis by (auto simp: digits_big)
  qed
qed

lemma BigInt_digits: "BigInt (digits n) = Inr (int n)"
proof -
  obtain d ds where eq: "digits n = digit_char d # ds" using hd_digits by blast
  have "all_digits (digits n)" by (simp add: all_digits_def digits_nonempty digits_all)
  moreover have "parse_digits (digits n) = n" by (rule parse_digits_digits)
  ultimately show ?thesis
    using eq digit_char_not_sign [of d] by (simp add: BigInt_def)
qed

lemma BigInt_toString: "BigInt (toString i) = Inr i"
proof (cases "i < 0")
  case True
  have "all_digits (digits (nat (- i)))" by (simp add: all_digits_def digits_nonempty digits_all)
  then show ?thesis using True by (simp add: toString_def BigInt_def parse_digits_digits)
next
  case False
  then show ?thesis by (simp add: toString_def BigInt_digits)
qed

lemma sdiv_nonneg: "0 \<le> a \<Longrightarrow> 0 < b \<Longrightarrow> (a::int) sdiv b = a div b"
  by (simp add: signed_divide_int_def sgn_if)

lemma smod_nonneg: "0 \<le> a \<Longrightarrow> 0 < b \<Longrightarrow> (a::int) smod b = a mod b"
  by (simp add: signed_modulo_int_def sgn_if)

lemma BigInt_999: "BigInt ''999'' = Inr 999"
  by (simp add: BigInt_def all_digits_def is_digit_def parse_digits_def digit_val_def decimal_digits_def)
lemma BigInt_1000: "BigInt ''1000'' = Inr 1000"
  by (simp add: BigInt_def all_digits_def is_digit_def parse_digits_def digit_val_def decimal_digits_def)
lemma BigInt_997: "BigInt ''997'' = Inr 997"
  by (simp add: BigInt_def all_digits_def is_digit_def parse_digits_def digit_val_def decimal_digits_def)

lemma round_arith:
  fixes a b :: int
  assumes "0 \<le> a" "0 < b"
  shows "a - a mod b + (if a mod b = 0 then 0 else b) = a + ((b - a mod b) mod b)"
proof (cases "a mod b = 0")
  case True then show ?thesis by simp
next
  case False
  have "0 \<le> a mod b" "a mod b < b" using assms by simp_all
  with False have "0 < b - a mod b" "b - a mod b < b" by linarith+
  then have eq: "(b - a mod b) mod b = b - a mod b" by (intro mod_pos_pos_trivial) linarith+
  have "a - a mod b + (if a mod b = 0 then 0 else b) = a - a mod b + b" using False by simp
  also have "\<dots> = a + (b - a mod b)" by simp
  also have "\<dots> = a + ((b - a mod b) mod b)" by (simp only: eq)
  finally show ?thesis .
qed

lemma roundUpToNearest_value:
  assumes "BigInt x = Inr a" "BigInt m = Inr b" "0 \<le> a" "0 < b"
  shows "roundUpToNearest x m = Inr (toString (a + ((b - a mod b) mod b)))"
proof -
  have "roundUpToNearest x m = Inr (toString (a - a mod b + (if a mod b = 0 then 0 else b)))"
    using assms by (simp add: roundUpToNearest_def bigint_rem_def smod_nonneg Let_def)
  then show ?thesis using assms by (simp only: round_arith)
qed

lemma round_props:
  fixes a b :: int
  assumes "0 \<le> a" "0 < b"
  defines "r \<equiv> a + ((b - a mod b) mod b)"
  shows "r mod b = 0" "r - b < a" "a \<le> r" "a mod b = 0 \<Longrightarrow> r = a"
proof -
  have r: "r = a - a mod b + (if a mod b = 0 then 0 else b)"
    unfolding r_def using assms(1,2) by (simp only: round_arith)
  have bounds: "0 \<le> a mod b" "a mod b < b" using assms by simp_all
  have "(a - a mod b) mod b = 0" by (simp add: minus_mod_eq_mult_div)
  then show "r mod b = 0" unfolding r by (cases "a mod b = 0") simp_all
  show "r - b < a"
  proof (cases "a mod b = 0")
    case True then show ?thesis unfolding r using assms by simp
  next
    case False
    with bounds have "0 < a mod b" by linarith
    with False show ?thesis unfolding r by simp
  qed
  show "a \<le> r"
  proof (cases "a mod b = 0")
    case True then show ?thesis unfolding r by simp
  next
    case False
    with bounds show ?thesis unfolding r by simp
  qed
  show "a mod b = 0 \<Longrightarrow> r = a" unfolding r by simp
qed

text \<open>
  The unfolding rules that evaluate the definitions on concrete strings and numbers.
\<close>

lemmas js_eval =
  digits_small digits_big toString_def digit_char_def decimal_digits_def BigInt_def BigInt_opt_def all_digits_def
  is_digit_def parse_digits_def digit_val_def bigint_div_def bigint_rem_def at_index_def
  reduce_no_init_def Let_def

section \<open>Amount arithmetic\<close>

text \<open>
  Claim C3. For strings \<open>x\<close> and \<open>m\<close> that read as a non-negative integer \<open>a\<close> and a
  positive integer \<open>b\<close>, \<open>roundUpToNearest x m\<close> returns the decimal string of
  \<open>r = a + ((b - a mod b) mod b)\<close>; \<open>r\<close> is a multiple of \<open>b\<close> with \<open>r - b < a \<le> r\<close>,
  and \<open>r = a\<close> when \<open>a\<close> is already a multiple of \<open>b\<close>. The documented cases hold:
  (0, 5) gives 0, (39, 5) gives 40, (40, 5) gives 40 and (41, 5) gives 45.
\<close>

theorem roundUpToNearest_smallest_multiple:
  assumes "BigInt x = Inr a" and "BigInt m = Inr b" and "0 \<le> a" and "0 < b"
  shows "(\<exists>r. roundUpToNearest x m = Inr (toString r) \<and> BigInt (toString r) = Inr r
            \<and> r = a + ((b - a mod b) mod b)
            \<and> r mod b = 0 \<and> r - b < a \<and> a \<le> r \<and> (a mod b = 0 \<longrightarrow> r = a))
         \<and> roundUpToNearest ''0'' ''5'' = Inr ''0''
         \<and> roundUpToNearest ''39'' ''5'' = Inr ''40''
         \<and> roundUpToNearest ''40'' ''5'' = Inr ''40''
         \<and> roundUpToNearest ''41'' ''5'' = Inr ''45''"
proof (intro conjI)
  show "\<exists>r. roundUpToNearest x m = Inr (toString r) \<and> BigInt (toString r) = Inr r
            \<and> r = a + ((b - a mod b) mod b)
            \<and> r mod b = 0 \<and> r - b < a \<and> a \<le> r \<and> (a mod b = 0 \<longrightarrow> r = a)"
  proof (intro exI conjI)
    show "roundUpToNearest x m = Inr (toString (a + ((b - a mod b) mod b)))"
      by (rule roundUpToNearest_value [OF assms])
    show "BigInt (toString (a + ((b - a mod b) mod b))) = Inr (a + ((b - a mod b) mod b))"
      by (rule BigInt_toString)
    show "a + ((b - a mod b) mod b) = a + ((b - a mod b) mod b)" by (rule refl)
    show "(a + ((b - a mod b) mod b)) mod b = 0" by (rule round_props(1) [OF assms(3,4)])
    show "a + ((b - a mod b) mod b) - b < a" by (rule round_props(2) [OF assms(3,4)])
    show "a \<le> a + ((b - a mod b) mod b)" by (rule round_props(3) [OF assms(3,4)])
    show "a mod b = 0 \<longrightarrow> a + ((b - a mod b) mod b) = a"
      using round_props(4) [OF assms(3,4)] by blast
  qed
  show "roundUpToNearest ''0'' ''5'' = Inr ''0''"
    by (simp add: roundUpToNearest_def js_eval)
  show "roundUpToNearest ''39'' ''5'' = Inr ''40''"
    by (simp add: roundUpToNearest_def js_eval)
  show "roundUpToNearest ''40'' ''5'' = Inr ''40''"
    by (simp add: roundUpToNearest_def js_eval)
  show "roundUpToNearest ''41'' ''5'' = Inr ''45''"
    by (simp add: roundUpToNearest_def js_eval)
qed

theorem roundUpToNearest_smallest_multiple_witness:
  "BigInt ''1234'' = Inr 1234 \<and> BigInt ''100'' = Inr 100 \<and> (0::int) \<le> 1234 \<and> (0::int) < 100
   \<and> roundUpToNearest ''1234'' ''100'' = Inr ''1300''"
proof -
  have x: "BigInt ''1234'' = Inr 1234" by (simp add: js_eval)
  have m: "BigInt ''100'' = Inr 100" by (simp add: js_eval)
  have a: "(0::int) \<le> 1234" by simp
  have b: "(0::int) < 100" by simp
  from roundUpToNearest_smallest_multiple [OF x m a b]
  have "roundUpToNearest ''1234'' ''100'' = Inr (toString (1234 + ((100 - 1234 mod 100) mod 100)))"
    by auto
  then have "roundUpToNearest ''1234'' ''100'' = Inr ''1300''" by (simp add: js_eval)
  with x m show ?thesis by simp
qed

section \<open>The AMM estimates\<close>

lemma min_out_one:
  assumes "BigInt s = Inr a" "0 \<le> a" "BigInt us = Inr u" "0 \<le> u" "BigInt ts = Inr t" "0 < t"
  shows "bindE (BigInt s) (\<lambda>a.
       bindE (BigInt us) (\<lambda>u.
       bindE (BigInt ts) (\<lambda>t.
       bindE (bigint_div (a * u) t) (\<lambda>exact_amount.
       bindE (BigInt ''999'') (\<lambda>k999.
       bindE (BigInt ''1000'') (\<lambda>k1000.
       bindE (bigint_div (exact_amount * k999) k1000) (\<lambda>r.
         Inr (toString r)))))))) = Inr (toString ((a * u div t) * 999 div 1000))"
proof -
  have 1: "0 \<le> a * u" using assms by simp
  have 2: "0 \<le> a * u div t" using 1 assms(6) by (simp add: pos_imp_zdiv_nonneg_iff)
  have 3: "0 \<le> a * u div t * 999" using 2 by simp
  show ?thesis
    using assms 1 3 by (simp add: bigint_div_def BigInt_999 BigInt_1000 sdiv_nonneg)
qed

text \<open>
  Claim C5. For a share count \<open>u \<ge> 0\<close>, a total \<open>t > 0\<close> and pool amounts \<open>a\<^sub>i \<ge> 0\<close>, all
  given as decimal strings, \<open>calcMinLPAmountsOut\<close> returns, token by token, the decimal
  string of \<open>floor (floor (a\<^sub>i * u / t) * 999 / 1000)\<close>. For 100 shares of 1000 and the
  amounts 500 and 900 it returns 49 and 89.
\<close>

theorem calcMinLPAmountsOut_proportional_haircut:
  assumes "BigInt us = Inr u" and "0 \<le> u" and "BigInt ts = Inr t" and "0 < t"
    and "list_all2 (\<lambda>s a. BigInt s = Inr a \<and> 0 \<le> a) ss vs"
  shows "calcMinLPAmountsOut us ts ss = Inr (map (\<lambda>a. toString ((a * u div t) * 999 div 1000)) vs)
         \<and> calcMinLPAmountsOut ''100'' ''1000'' [''500'', ''900''] = Inr [''49'', ''89'']"
proof
  from assms(5) show "calcMinLPAmountsOut us ts ss = Inr (map (\<lambda>a. toString ((a * u div t) * 999 div 1000)) vs)"
  proof (induction rule: list_all2_induct)
    case Nil
    show ?case by (simp add: calcMinLPAmountsOut_def)
  next
    case (Cons s ss a vs)
    then have "BigInt s = Inr a" "0 \<le> a" by simp_all
    from min_out_one [OF this assms(1-4)] Cons.IH
    show ?case by (simp add: calcMinLPAmountsOut_def)
  qed
  show "calcMinLPAmountsOut ''100'' ''1000'' [''500'', ''900''] = Inr [''49'', ''89'']"
    by (simp add: calcMinLPAmountsOut_def js_eval)
qed

theorem calcMinLPAmountsOut_proportional_haircut_witness:
  "BigInt ''3'' = Inr 3 \<and> BigInt ''7'' = Inr 7
   \<and> list_all2 (\<lambda>s a. BigInt s = Inr a \<and> 0 \<le> a) [''5000'', ''0'', ''6999''] [5000, 0, 6999]
   \<and> calcMinLPAmountsOut ''3'' ''7'' [''5000'', ''0'', ''6999''] = Inr [''2139'', ''0'', ''2996'']"
proof -
  have u: "BigInt ''3'' = Inr 3" by (simp add: js_eval)
  have t: "BigInt ''7'' = Inr 7" by (simp add: js_eval)
  have l: "list_all2 (\<lambda>s a. BigInt s = Inr a \<and> 0 \<le> a) [''5000'', ''0'', ''6999''] [5000, 0, 6999]"
    by (simp add: js_eval)
  from calcMinLPAmountsOut_proportional_haircut [OF u _ t _ l]
  have "calcMinLPAmountsOut ''3'' ''7'' [''5000'', ''0'', ''6999'']
          = Inr (map (\<lambda>a. toString ((a * 3 div 7) * 999 div 1000)) [5000, 0, 6999])"
    by simp
  then have "calcMinLPAmountsOut ''3'' ''7'' [''5000'', ''0'', ''6999''] = Inr [''2139'', ''0'', ''2996'']"
    by (simp add: js_eval)
  with u t l show ?thesis by simp
qed

text \<open>
  Claim C1. The claim says that \<open>calcLpSharesFromAmounts\<close> returns the smallest
  per-token candidate \<open>floor (total * supplied\<^sub>i / pool\<^sub>i)\<close> cut by 0.3 percent, and 99700
  for a total of 1000000, the pool amounts 100 and 200 and the supplied amounts 10 and
  20. The \<^verbatim>\<open>reduce\<close> has no initial value, so it starts from the raw pool amount of
  token 0 and never computes that token's candidate: on the documented input the code
  compares 100 with the candidate 100000 of token 1, keeps 100, and returns 99.
\<close>

theorem calcLpSharesFromAmounts_documented_case:
  "calcLpSharesFromAmounts ''1000000'' [''100'', ''200''] [''10'', ''20''] = Inr ''99''"
  by (simp add: calcLpSharesFromAmounts_def js_eval)

text \<open>
  More generally, on a pool of at least one token the estimate never reads the first
  supplied amount.
\<close>

lemma calcLpSharesFromAmounts_ignores_first_supplied:
  "calcLpSharesFromAmounts t (p0 # ps) (l0 # ls) = calcLpSharesFromAmounts t (p0 # ps) (l0' # ls)"
proof -
  let ?f = "\<lambda>lp prevValue poolAmt index.
              bindE (BigInt t) (\<lambda>tv.
              bindE (BigInt_opt (at_index lp index)) (\<lambda>l.
              bindE (BigInt poolAmt) (\<lambda>p.
              bindE (bigint_div (tv * l) p) (\<lambda>currValue.
              bindE (BigInt prevValue) (\<lambda>pv.
                Inr (if pv < currValue then prevValue else toString currValue))))))"
  have step: "?f (l0 # ls) acc x (Suc i) = ?f (l0' # ls) acc x (Suc i)" for acc x i
    by (simp add: at_index_def)
  have "reduce_from (?f (l0 # ls)) acc xs (Suc i) = reduce_from (?f (l0' # ls)) acc xs (Suc i)"
    for acc xs i
  proof (induction xs arbitrary: acc i)
    case Nil
    show ?case by simp
  next
    case (Cons x xs)
    show ?case
      by (simp only: reduce_from.simps step Cons.IH)
  qed
  from this [of p0 ps 0] show ?thesis
    by (simp add: calcLpSharesFromAmounts_def reduce_no_init_def)
qed

subsection \<open>The stNEAR estimate\<close>

lemma BigInt_not_div0: "BigInt s \<noteq> Inl DivisionByZero"
  by (simp add: BigInt_def split: list.splits)

lemma repeat_zero_not_div0: "repeat_zero n \<noteq> Inl DivisionByZero"
  by (simp add: repeat_zero_def)

lemma bindE_Inl_iff: "bindE m f = Inl x \<longleftrightarrow> m = Inl x \<or> (\<exists>v. m = Inr v \<and> f v = Inl x)"
  by (cases m) simp_all

text \<open>
  Claim C9. Whenever the price reads as the big integer zero, \<open>estimateStnearOut\<close>
  returns the string 0, whatever the amount and the accuracy are (the amount is not even
  read). So the division by the price never runs on a zero divisor: as long as the
  formatting of the quotient does not itself divide by zero, the function never raises
  the division-by-zero error.
\<close>

theorem estimateStnearOut_zero_price_guard:
  "(BigInt price = Inr 0 \<longrightarrow> estimateStnearOut fq amt price acc = Inr ''0'')
   \<and> ((\<forall>q n. fq q n \<noteq> Inl DivisionByZero)
        \<longrightarrow> estimateStnearOut fq amt price acc \<noteq> Inl DivisionByZero)"
proof (intro conjI impI)
  assume "BigInt price = Inr 0"
  then show "estimateStnearOut fq amt price acc = Inr ''0''"
    by (simp add: estimateStnearOut_def)
next
  assume fq: "\<forall>q n. fq q n \<noteq> Inl DivisionByZero"
  show "estimateStnearOut fq amt price acc \<noteq> Inl DivisionByZero"
  proof (cases "BigInt price")
    case (Inl err)
    with BigInt_not_div0 [of price] show ?thesis
      by (simp add: estimateStnearOut_def)
  next
    case (Inr p)
    show ?thesis
    proof (cases "p = 0")
      case True
      with Inr show ?thesis by (simp add: estimateStnearOut_def)
    next
      case False
      with Inr fq show ?thesis
        using BigInt_not_div0 repeat_zero_not_div0
        by (auto simp: estimateStnearOut_def Let_def bindE_Inl_iff bigint_div_def)
    qed
  qed
qed

theorem estimateStnearOut_zero_price_guard_witness:
  "BigInt ''0'' = Inr 0
   \<and> estimateStnearOut (\<lambda>q n. Inr (toString q)) ''17'' ''0'' None = Inr ''0''
   \<and> estimateStnearOut (\<lambda>q n. Inr (toString q)) ''17'' ''4'' (Some 2) \<noteq> Inl DivisionByZero"
proof -
  have z: "BigInt ''0'' = Inr 0" by (simp add: js_eval)
  have f: "\<forall>q n. (\<lambda>q n. Inr (toString q) :: error + string) q n \<noteq> Inl DivisionByZero" by simp
  from estimateStnearOut_zero_price_guard [of "''0''" "\<lambda>q n. Inr (toString q)" "''17''" None] z
  have a: "estimateStnearOut (\<lambda>q n. Inr (toString q)) ''17'' ''0'' None = Inr ''0''" by blast
  from estimateStnearOut_zero_price_guard [of "''4''" "\<lambda>q n. Inr (toString q)" "''17''" "Some 2"] f
  have b: "estimateStnearOut (\<lambda>q n. Inr (toString q)) ''17'' ''4'' (Some 2) \<noteq> Inl DivisionByZero"
    by blast
  from z a b show ?thesis by simp
qed

section \<open>The transaction builder and the views\<close>

lemma Number_add_safe:
  assumes "safe_integer a" and "safe_integer b" and "safe_integer (a + b)"
  shows "Number_add e a b = a + b"
  using assms by (simp add: Number_add_def)

text \<open>
  Claim C7. When the access-key lookup and the block query both answer,
  \<open>makeTransaction\<close> fails exactly when no key matches the receiver and the actions, and
  then with the error that names the receiver; when a key matches it returns an unsigned
  transaction signed for the current account, for that one receiver, carrying the given
  actions. Its nonce is the key's nonce plus the offset, for a nonce, an offset and a sum
  within the safe integers of a JavaScript number, and the offset is 1 when the caller
  gives none.
\<close>

theorem makeTransaction_key_and_nonce:
  assumes "accessKeyForTransaction e r as = Inr k" and "block_final_hash e = Inr h"
  shows "(makeTransaction e r as off = Inl (no_matching_key r) \<longleftrightarrow> k = None)
         \<and> (\<forall>err. makeTransaction e r as off = Inl err \<longrightarrow> k = None \<and> err = no_matching_key r)
         \<and> (\<forall>key. k = Some key \<longrightarrow>
               (\<exists>tx. makeTransaction e r as off = Inr tx
                  \<and> signerId tx = accountId e \<and> receiverId tx = r \<and> actions tx = as
                  \<and> (\<forall>n. n = (case off of None \<Rightarrow> 1 | Some m \<Rightarrow> m)
                         \<and> safe_integer (access_key_nonce key) \<and> safe_integer n
                         \<and> safe_integer (access_key_nonce key + n)
                       \<longrightarrow> nonce tx = access_key_nonce key + n)))"
proof (cases k)
  case None
  with assms show ?thesis
    by (simp add: makeTransaction_def Let_def)
next
  case (Some key)
  let ?n = "case off of None \<Rightarrow> 1 | Some m \<Rightarrow> m"
  have run: "makeTransaction e r as off =
               Inr (createTransaction (accountId e) (PublicKey_from e (public_key key)) r
                      (Number_add e (access_key_nonce key) ?n) as (baseDecode e h))"
    using assms Some by (simp add: makeTransaction_def Let_def)
  have exact: "safe_integer (access_key_nonce key) \<and> safe_integer ?n
                 \<and> safe_integer (access_key_nonce key + ?n)
               \<longrightarrow> Number_add e (access_key_nonce key) ?n = access_key_nonce key + ?n"
    by (simp add: Number_add_safe)
  from run exact Some show ?thesis
    by (simp add: createTransaction_def)
qed

theorem makeTransaction_key_and_nonce_witness:
  "accessKeyForTransaction (example_env None (Some example_key)) ''wrap.near'' [] = Inr (Some example_key)
   \<and> block_final_hash (example_env None (Some example_key)) = Inr ''9xQ''
   \<and> safe_integer (access_key_nonce example_key) \<and> safe_integer 1
   \<and> safe_integer (access_key_nonce example_key + 1)
   \<and> (\<exists>tx. makeTransaction (example_env None (Some example_key)) ''wrap.near'' [] None = Inr tx
          \<and> receiverId tx = ''wrap.near'' \<and> nonce tx = 42)
   \<and> makeTransaction (example_env None None) ''wrap.near'' [] (Some 3)
         = Inl (no_matching_key ''wrap.near'')"
proof -
  have k0: "accessKeyForTransaction (example_env None None) ''wrap.near'' [] = Inr None"
    by (simp add: example_env_def)
  have h0: "block_final_hash (example_env None None) = Inr ''9xQ''"
    by (simp add: example_env_def)
  from makeTransaction_key_and_nonce [OF k0 h0, of "Some 3"]
  have none: "makeTransaction (example_env None None) ''wrap.near'' [] (Some 3)
                = Inl (no_matching_key ''wrap.near'')"
    by blast
  have k: "accessKeyForTransaction (example_env None (Some example_key)) ''wrap.near'' [] = Inr (Some example_key)"
    by (simp add: example_env_def)
  have h: "block_final_hash (example_env None (Some example_key)) = Inr ''9xQ''"
    by (simp add: example_env_def)
  have s: "safe_integer (access_key_nonce example_key)" "safe_integer 1"
    "safe_integer (access_key_nonce example_key + 1)"
    by (simp_all add: safe_integer_def MAX_SAFE_INTEGER_def example_key_def)
  from makeTransaction_key_and_nonce [OF k h, of None] s
  have "\<exists>tx. makeTransaction (example_env None (Some example_key)) ''wrap.near'' [] None = Inr tx
          \<and> receiverId tx = ''wrap.near'' \<and> nonce tx = access_key_nonce example_key + 1"
    by auto
  then have "\<exists>tx. makeTransaction (example_env None (Some example_key)) ''wrap.near'' [] None = Inr tx
          \<and> receiverId tx = ''wrap.near'' \<and> nonce tx = 42"
    by (simp add: example_key_def)
  with k h s none show ?thesis by simp
qed

lemma at_sign_not_inherited: "CHR ''@'' \<in> set k \<Longrightarrow> k \<notin> set object_prototype_names"
  by (auto simp: object_prototype_names_def)

lemma getFarmingStake_no_entry:
  assumes "view_list_user_seeds e (ADDRESS_REF_FARMING e) (accountId e) = Inr seeds"
    and "seeds (ADDRESS_REF_EXCHANGE e @ ''@'' @ Number_toString e pool) = None"
  shows "getFarmingStake e pool = Inr (JSString ''0'')"
proof -
  have "ADDRESS_REF_EXCHANGE e @ ''@'' @ Number_toString e pool \<notin> set object_prototype_names"
    by (rule at_sign_not_inherited) simp
  with assms show ?thesis
    by (simp add: getFarmingStake_def get_property_def or_zero_def)
qed

lemma getTokenBalancesOnRef_own_names:
  assumes "view_get_deposits e (ADDRESS_REF_EXCHANGE e) (accountId e) = Inr deps"
  shows "\<exists>bs. getTokenBalancesOnRef e tokens = Inr bs \<and> length bs = length tokens
           \<and> (\<forall>i<length tokens. deps (tokens ! i) = None
                  \<and> tokens ! i \<notin> set object_prototype_names \<longrightarrow> bs ! i = JSString ''0'')
           \<and> (\<forall>i<length tokens. \<forall>v. deps (tokens ! i) = Some v \<and> v \<noteq> []
                  \<longrightarrow> bs ! i = JSString v)
           \<and> (\<forall>i<length tokens. deps (tokens ! i) = None
                  \<and> tokens ! i \<in> set object_prototype_names \<longrightarrow> bs ! i = JSInherited (tokens ! i))"
  using assms
  by (auto simp: getTokenBalancesOnRef_def get_property_def or_zero_def)

text \<open>
  Claim C10. The claim says that a missing entry always gives the string 0:
  \<open>getFarmingStake\<close> for a pool with no seed entry, and \<open>getTokenBalancesOnRef\<close>, position by
  position, for every token absent from the deposits. The first holds
  (\<open>getFarmingStake_no_entry\<close>: the key contains an at sign, so it names no inherited
  property). The second reads \<^verbatim>\<open>refBalances[token]\<close> on a plain object: for the token
  \<^verbatim>\<open>constructor\<close>, which has no deposit, the lookup finds the function that every object
  inherits, which is truthy, and the code returns that function where the claim says the
  string 0.
\<close>

theorem getTokenBalancesOnRef_inherited_name:
  "view_get_deposits (example_env None None) (ADDRESS_REF_EXCHANGE (example_env None None))
     (accountId (example_env None None)) = Inr [''wrap.near'' \<mapsto> ''12'']
   \<and> [''wrap.near'' \<mapsto> ''12''] ''constructor'' = None
   \<and> getTokenBalancesOnRef (example_env None None) [''wrap.near'', ''constructor'', ''dai.near'']
       = Inr [JSString ''12'', JSInherited ''constructor'', JSString ''0'']"
  by (simp add: getTokenBalancesOnRef_def get_property_def or_zero_def example_env_def
        object_prototype_names_def)

section \<open>Recipes\<close>

lemmas recipe_eval =
  depositTokensOnRef_def storage_deposit_actions_def roundUpToNearest_def makeTransaction_def
  createTransaction_def functionCall_def example_env_def example_key_def funded_env_def
  MIN_DEPOSIT_PER_TOKEN_def FARM_STORAGE_BALANCE_def LP_STORAGE_AMOUNT_def farmStake_def
  farmStake_needs_storage_def available_or_zero_def addLiquidity_def add_liquidity_action_def
  min_lp_amount_def passToWallet_def getPoolInfo_def calcLpSharesFromAmounts_def
  STNEAR_WNEAR_POOL_ID_def Number_add_def Number_toString_def safe_integer_def
  MAX_SAFE_INTEGER_def js_eval

subsection \<open>Adding liquidity\<close>

lemma min_lp_amount_value:
  assumes "BigInt s = Inr v" and "0 \<le> v"
  shows "min_lp_amount s = Inr (toString (v * 999 div 1000))"
proof -
  have "0 \<le> v * 999" using assms(2) by simp
  then show ?thesis
    using assms(1)
    by (simp add: min_lp_amount_def bigint_div_def BigInt_999 BigInt_1000 sdiv_nonneg)
qed

lemma mapE_min_lp_amount:
  assumes "list_all2 (\<lambda>s v. BigInt s = Inr v \<and> 0 \<le> v) ss vs"
  shows "mapE min_lp_amount ss = Inr (map (\<lambda>v. toString (v * 999 div 1000)) vs)"
  using assms
proof (induction rule: list_all2_induct)
  case Nil
  show ?case by simp
next
  case (Cons s ss v vs)
  then show ?case by (simp add: min_lp_amount_value)
qed

lemma add_liquidity_action_value:
  assumes "list_all2 (\<lambda>s v. BigInt s = Inr v \<and> 0 \<le> v) (amounts p) vs"
  shows "add_liquidity_action p =
           Inr (functionCall ''add_liquidity''
                  (JObject [(''pool_id'', JNumber (pool_id p)),
                            (''amounts'', JArray (map JString (amounts p))),
                            (''min_amounts'',
                               JArray (map (\<lambda>v. JString (toString (v * 999 div 1000))) vs))])
                  100000000000000 LP_STORAGE_AMOUNT)"
  using mapE_min_lp_amount [OF assms]
  by (simp add: add_liquidity_action_def o_def)

lemma mapE_add_liquidity_action:
  assumes "list_all2 (\<lambda>p vs. list_all2 (\<lambda>s v. BigInt s = Inr v \<and> 0 \<le> v) (amounts p) vs) ps vss"
  shows "mapE add_liquidity_action ps =
           Inr (map2 (\<lambda>p vs. functionCall ''add_liquidity''
                  (JObject [(''pool_id'', JNumber (pool_id p)),
                            (''amounts'', JArray (map JString (amounts p))),
                            (''min_amounts'',
                               JArray (map (\<lambda>v. JString (toString (v * 999 div 1000))) vs))])
                  100000000000000 LP_STORAGE_AMOUNT) ps vss)"
  using assms
proof (induction rule: list_all2_induct)
  case Nil
  show ?case by simp
next
  case (Cons p ps vs vss)
  then show ?case by (simp add: add_liquidity_action_value)
qed

text \<open>
  Claim C6. For positions whose amounts are decimal strings of non-negative integers,
  \<open>addLiquidity\<close> returns one transaction to the exchange with one \<^verbatim>\<open>add_liquidity\<close>
  action per position, in order; the action of position \<open>i\<close> carries the position's pool
  and amounts, and its \<^verbatim>\<open>min_amounts\<close> are, token by token, the decimal strings of
  \<open>floor (amount * 999 / 1000)\<close>. An amount of 1000 gives the minimum 999.
\<close>

theorem addLiquidity_min_amounts:
  assumes "\<forall>as. \<exists>k. accessKeyForTransaction e (ADDRESS_REF_EXCHANGE e) as = Inr (Some k)"
    and "block_final_hash e = Inr h"
    and "list_all2 (\<lambda>p vs. list_all2 (\<lambda>s v. BigInt s = Inr v \<and> 0 \<le> v) (amounts p) vs) ps vss"
  shows "(\<exists>tx. addLiquidity e ps = Inr [tx] \<and> receiverId tx = ADDRESS_REF_EXCHANGE e
            \<and> length (actions tx) = length ps
            \<and> (\<forall>i<length ps.
                  methodName (actions tx ! i) = ''add_liquidity''
                \<and> json_field (args (actions tx ! i)) ''pool_id'' = Some (JNumber (pool_id (ps ! i)))
                \<and> json_field (args (actions tx ! i)) ''amounts''
                    = Some (JArray (map JString (amounts (ps ! i))))
                \<and> json_field (args (actions tx ! i)) ''min_amounts''
                    = Some (JArray (map (\<lambda>v. JString (toString (v * 999 div 1000))) (vss ! i)))))
         \<and> min_lp_amount ''1000'' = Inr ''999''"
proof
  let ?call = "\<lambda>p vs. functionCall ''add_liquidity''
                  (JObject [(''pool_id'', JNumber (pool_id p)),
                            (''amounts'', JArray (map JString (amounts p))),
                            (''min_amounts'',
                               JArray (map (\<lambda>v. JString (toString (v * 999 div 1000))) vs))])
                  100000000000000 LP_STORAGE_AMOUNT"
  let ?as = "map2 ?call ps vss"
  have len: "length vss = length ps"
    using assms(3) by (simp add: list_all2_lengthD)
  from assms(1) obtain k
    where k: "accessKeyForTransaction e (ADDRESS_REF_EXCHANGE e) ?as = Inr (Some k)"
    by blast
  have run: "addLiquidity e ps =
               Inr [createTransaction (accountId e) (PublicKey_from e (public_key k))
                      (ADDRESS_REF_EXCHANGE e) (Number_add e (access_key_nonce k) 1) ?as
                      (baseDecode e h)]"
    using mapE_add_liquidity_action [OF assms(3)] k assms(2)
    by (simp add: addLiquidity_def makeTransaction_def)
  have nth: "\<forall>i<length ps. ?as ! i = ?call (ps ! i) (vss ! i)"
    using len by simp
  show "\<exists>tx. addLiquidity e ps = Inr [tx] \<and> receiverId tx = ADDRESS_REF_EXCHANGE e
            \<and> length (actions tx) = length ps
            \<and> (\<forall>i<length ps.
                  methodName (actions tx ! i) = ''add_liquidity''
                \<and> json_field (args (actions tx ! i)) ''pool_id'' = Some (JNumber (pool_id (ps ! i)))
                \<and> json_field (args (actions tx ! i)) ''amounts''
                    = Some (JArray (map JString (amounts (ps ! i))))
                \<and> json_field (args (actions tx ! i)) ''min_amounts''
                    = Some (JArray (map (\<lambda>v. JString (toString (v * 999 div 1000))) (vss ! i))))"
    using run nth len
    by (simp add: createTransaction_def functionCall_def json_field_def)
  show "min_lp_amount ''1000'' = Inr ''999''"
    by (simp add: min_lp_amount_def js_eval)
qed

theorem addLiquidity_min_amounts_witness:
  "\<exists>tx. addLiquidity funded_env [\<lparr>pool_id = 535, amounts = [''1000'', ''2001'']\<rparr>] = Inr [tx]
      \<and> receiverId tx = ''v2.ref-finance.near''
      \<and> json_field (args (actions tx ! 0)) ''min_amounts''
          = Some (JArray [JString ''999'', JString ''1998''])"
proof -
  let ?ps = "[\<lparr>pool_id = 535, amounts = [''1000'', ''2001'']\<rparr>]"
  have k: "\<forall>as. \<exists>k. accessKeyForTransaction funded_env (ADDRESS_REF_EXCHANGE funded_env) as
                       = Inr (Some k)"
    by (simp add: funded_env_def example_env_def)
  have h: "block_final_hash funded_env = Inr ''9xQ''"
    by (simp add: funded_env_def example_env_def)
  have p: "list_all2 (\<lambda>p vs. list_all2 (\<lambda>s v. BigInt s = Inr v \<and> 0 \<le> v) (amounts p) vs)
             ?ps [[1000, 2001]]"
    by (simp add: js_eval)
  from addLiquidity_min_amounts [OF k h p]
  obtain tx where tx: "addLiquidity funded_env ?ps = Inr [tx]"
    and r: "receiverId tx = ADDRESS_REF_EXCHANGE funded_env"
    and m: "json_field (args (actions tx ! 0)) ''min_amounts''
              = Some (JArray (map (\<lambda>v. JString (toString (v * 999 div 1000))) ([[1000, 2001]] ! 0)))"
    by auto
  have "receiverId tx = ''v2.ref-finance.near''"
    using r by (simp add: funded_env_def example_env_def)
  moreover have "json_field (args (actions tx ! 0)) ''min_amounts''
                   = Some (JArray [JString ''999'', JString ''1998''])"
    using m by (simp add: js_eval)
  ultimately show ?thesis using tx by blast
qed

subsection \<open>The second step of the recipe\<close>

lemma passToWallet_two:
  "passToWallet e [Inr a, Inr b] = Inr \<lparr>transactions = a @ b, callbackUrl = location_href e\<rparr>"
  by (simp add: passToWallet_def)

text \<open>
  With the flag false or not set, the wallet receives the transactions of the token
  deposits and then those of the liquidity call, and nothing else.
\<close>

lemma stepTwoAction_farm_inactive:
  assumes "getPoolInfo e STNEAR_WNEAR_POOL_ID = Inr info"
    and "calcLpSharesFromAmounts (total_shares info) (pool_amounts info) [st, wn] = Inr lp"
    and "depositTokensOnRef e [\<lparr>token = ADDRESS_METAPOOL e, amount = st\<rparr>,
                                \<lparr>token = ADDRESS_WNEAR e, amount = wn\<rparr>] = Inr dtxs"
    and "addLiquidity e [\<lparr>pool_id = STNEAR_WNEAR_POOL_ID, amounts = [st, wn]\<rparr>] = Inr ltxs"
    and "flag \<noteq> Some True"
  shows "stepTwoAction e flag st wn
           = Inr \<lparr>transactions = dtxs @ ltxs, callbackUrl = location_href e\<rparr>"
  using assms by (simp add: stepTwoAction_def passToWallet_two)

text \<open>
  With the flag true, once the pool is known and the shares are estimated, the step
  fails and the wallet receives nothing, whatever the deposits and the liquidity call
  would have returned.
\<close>

lemma stepTwoAction_farm_active:
  assumes "getPoolInfo e STNEAR_WNEAR_POOL_ID = Inr info"
    and "calcLpSharesFromAmounts (total_shares info) (pool_amounts info) [st, wn] = Inr lp"
  shows "stepTwoAction e (Some True) st wn = Inl TypeError"
  using assms by (simp add: stepTwoAction_def)

text \<open>
  Claim C8. The claim says that with \<^verbatim>\<open>isFarmActive\<close> true a farm-stake transaction is
  added to the transactions handed to the wallet, and that with the flag false only the
  deposits and the liquidity call are handed over. The second half holds
  (\<open>stepTwoAction_farm_inactive\<close>). For the first, the step calls \<^verbatim>\<open>this.farmStakeV2\<close>, which
  no class of the service defines: on an account for which the step with the flag false
  hands over its three transactions, the step with the flag true raises \<^verbatim>\<open>TypeError\<close> and
  hands over nothing.
\<close>

theorem stepTwoAction_farm_stake_missing:
  "stepTwoAction funded_env (Some True) ''10'' ''20'' = Inl TypeError
   \<and> (\<exists>req. stepTwoAction funded_env (Some False) ''10'' ''20'' = Inr req
         \<and> map receiverId (transactions req)
             = [''meta-pool.near'', ''wrap.near'', ''v2.ref-finance.near'']
         \<and> map (map methodName \<circ> actions) (transactions req)
             = [[''ft_transfer_call''], [''ft_transfer_call''], [''add_liquidity'']])"
proof -
  let ?e = funded_env
  let ?info = "\<lparr>fee = 30, user_shares = ''0'', total_shares = ''1000000'',
                pool_amounts = [''100'', ''200'']\<rparr>"
  have i: "getPoolInfo ?e STNEAR_WNEAR_POOL_ID = Inr ?info"
    by (simp add: funded_env_def getPoolInfo_def example_env_def)
  have l: "calcLpSharesFromAmounts (total_shares ?info) (pool_amounts ?info) [''10'', ''20''] = Inr ''99''"
    by (simp add: calcLpSharesFromAmounts_def js_eval)
  obtain dtxs where d: "depositTokensOnRef ?e [\<lparr>token = ADDRESS_METAPOOL ?e, amount = ''10''\<rparr>,
                                \<lparr>token = ADDRESS_WNEAR ?e, amount = ''20''\<rparr>] = Inr dtxs"
    and dm: "map (map methodName \<circ> actions) dtxs = [[''ft_transfer_call''], [''ft_transfer_call'']]"
    and dr: "map receiverId dtxs = [''meta-pool.near'', ''wrap.near'']"
    by (simp add: recipe_eval)
  obtain ltxs where a: "addLiquidity ?e [\<lparr>pool_id = STNEAR_WNEAR_POOL_ID, amounts = [''10'', ''20'']\<rparr>] = Inr ltxs"
    and lm: "map (map methodName \<circ> actions) ltxs = [[''add_liquidity'']]"
    and lr: "map receiverId ltxs = [''v2.ref-finance.near'']"
    by (simp add: recipe_eval)
  have t: "stepTwoAction ?e (Some True) ''10'' ''20'' = Inl TypeError"
    by (rule stepTwoAction_farm_active [OF i l])
  have n: "stepTwoAction ?e (Some False) ''10'' ''20''
             = Inr \<lparr>transactions = dtxs @ ltxs, callbackUrl = location_href ?e\<rparr>"
    by (rule stepTwoAction_farm_inactive [OF i l d a]) simp
  show ?thesis
    unfolding t n using dm dr lm lr by simp
qed

subsection \<open>The storage deposit policy\<close>

text \<open>
  What the two policies do, case by case. In \<open>depositTokensOnRef\<close> a balance strictly
  above the requirement gives no action; a balance at or below it gives one
  \<^verbatim>\<open>storage_deposit\<close> whose deposit is the shortfall rounded up to a multiple of the
  per-token minimum; an account with no balance raises \<^verbatim>\<open>TypeError\<close>. In \<open>farmStake\<close> a
  balance of at least the farm's storage balance gives no action and no storage
  transaction.
\<close>

lemma BigInt_MIN_DEPOSIT: "BigInt MIN_DEPOSIT_PER_TOKEN = Inr 5000000000000000000000"
  by (simp add: MIN_DEPOSIT_PER_TOKEN_def js_eval)

lemma BigInt_FARM_STORAGE: "BigInt FARM_STORAGE_BALANCE = Inr 45000000000000000000000"
  by (simp add: FARM_STORAGE_BALANCE_def js_eval)

lemma storage_deposit_actions_null:
  "storage_deposit_actions needed None = Inl TypeError"
  by (simp add: storage_deposit_actions_def)

lemma storage_deposit_actions_above:
  assumes "available sb = Some s" and "BigInt s = Inr av" and "needed < av"
  shows "storage_deposit_actions needed (Some sb) = Inr []"
  using assms by (simp add: storage_deposit_actions_def BigInt_opt_def)

lemma storage_deposit_actions_at_or_below:
  assumes "available sb = Some s" and "BigInt s = Inr av" and "av \<le> needed"
  shows "storage_deposit_actions needed (Some sb)
           = Inr [functionCall ''storage_deposit'' (JObject []) 20000000000000
                    (toString (needed - av
                       + ((5000000000000000000000 - (needed - av) mod 5000000000000000000000)
                            mod 5000000000000000000000)))]"
proof -
  have nn: "0 \<le> needed - av" using assms(3) by simp
  have "roundUpToNearest (toString (needed - av)) MIN_DEPOSIT_PER_TOKEN
          = Inr (toString (needed - av
                       + ((5000000000000000000000 - (needed - av) mod 5000000000000000000000)
                            mod 5000000000000000000000)))"
    by (rule roundUpToNearest_value [OF BigInt_toString BigInt_MIN_DEPOSIT nn]) simp
  then show ?thesis
    using assms by (simp add: storage_deposit_actions_def BigInt_opt_def)
qed

lemma farmStake_needs_storage_enough:
  assumes "available sb = Some s" and "BigInt s = Inr av" and "45000000000000000000000 \<le> av"
  shows "farmStake_needs_storage (Some sb) = Inr False"
  using assms
  by (simp add: farmStake_needs_storage_def available_or_zero_def BigInt_FARM_STORAGE BigInt_MIN_DEPOSIT)

lemma farmStake_storage_omitted:
  assumes "view_storage_balance_of e (ADDRESS_REF_FARMING e) (accountId e) = Inr (Some sb)"
    and "available sb = Some s" and "BigInt s = Inr av" and "45000000000000000000000 \<le> av"
    and "accessKeyForTransaction e (ADDRESS_REF_EXCHANGE e)
           [functionCall ''mft_transfer_call''
              (JObject [(''receiver_id'', JString (ADDRESS_REF_FARMING e)),
                        (''token_id'', JString ('':'' @ Number_toString e poolID)),
                        (''amount'', JString amt),
                        (''msg'', JString [])])
              180000000000000 ''1''] = Inr (Some k)"
    and "block_final_hash e = Inr h"
  shows "\<exists>tx. farmStake e amt poolID = Inr [tx] \<and> receiverId tx = ADDRESS_REF_EXCHANGE e
           \<and> map methodName (actions tx) = [''mft_transfer_call'']"
  using assms farmStake_needs_storage_enough [OF assms(2-4)]
  by (simp add: farmStake_def makeTransaction_def createTransaction_def functionCall_def)


text \<open>
  The same cases for the whole of \<open>depositTokensOnRef\<close>, for an account with one key
  that signs for every receiver: the requirement is the number of deposits times the
  per-token minimum, and each deposit is a transaction of its own to its token.
\<close>

lemma Promise_all_map_Inr: "Promise_all (map (\<lambda>x. Inr (g x)) xs) = Inr (map g xs)"
  by (induction xs) simp_all

lemma makeTransaction_found:
  assumes "accessKeyForTransaction e = (\<lambda>r as. Inr (Some k))" and "block_final_hash e = Inr h"
  shows "makeTransaction e r as None =
           Inr (createTransaction (accountId e) (PublicKey_from e (public_key k)) r
                  (Number_add e (access_key_nonce k) 1) as (baseDecode e h))"
  using assms by (simp add: makeTransaction_def)

lemma depositTokensOnRef_at_or_below:
  assumes "view_storage_balance_of e (ADDRESS_REF_EXCHANGE e) (accountId e) = Inr (Some sb)"
    and "available sb = Some s" and "BigInt s = Inr av"
    and "av \<le> int (length ds) * 5000000000000000000000"
    and "accessKeyForTransaction e = (\<lambda>r as. Inr (Some k))" and "block_final_hash e = Inr h"
  shows "\<exists>stx txs. depositTokensOnRef e ds = Inr (stx # txs)
           \<and> receiverId stx = ADDRESS_REF_EXCHANGE e
           \<and> actions stx =
               [functionCall ''storage_deposit'' (JObject []) 20000000000000
                  (toString (int (length ds) * 5000000000000000000000 - av
                     + ((5000000000000000000000
                          - (int (length ds) * 5000000000000000000000 - av) mod 5000000000000000000000)
                        mod 5000000000000000000000)))]
           \<and> map receiverId txs = map token ds
           \<and> map (map methodName \<circ> actions) txs = map (\<lambda>d. [''ft_transfer_call'']) ds"
  using assms(1) storage_deposit_actions_at_or_below [OF assms(2-4)]
  by (simp add: depositTokensOnRef_def BigInt_MIN_DEPOSIT makeTransaction_found [OF assms(5,6)]
        Promise_all_map_Inr o_def case_prod_unfold createTransaction_def functionCall_def)

lemma depositTokensOnRef_above:
  assumes "view_storage_balance_of e (ADDRESS_REF_EXCHANGE e) (accountId e) = Inr (Some sb)"
    and "available sb = Some s" and "BigInt s = Inr av"
    and "int (length ds) * 5000000000000000000000 < av"
    and "accessKeyForTransaction e = (\<lambda>r as. Inr (Some k))" and "block_final_hash e = Inr h"
  shows "\<exists>txs. depositTokensOnRef e ds = Inr txs
           \<and> map receiverId txs = map token ds
           \<and> map (map methodName \<circ> actions) txs = map (\<lambda>d. [''ft_transfer_call'']) ds"
  using assms(1) storage_deposit_actions_above [OF assms(2-4)]
  by (simp add: depositTokensOnRef_def BigInt_MIN_DEPOSIT makeTransaction_found [OF assms(5,6)]
        Promise_all_map_Inr o_def case_prod_unfold createTransaction_def functionCall_def)

text \<open>
  Claim C2. The claim says that \<open>depositTokensOnRef\<close> emits a \<^verbatim>\<open>storage_deposit\<close> exactly
  when the balance is absent or below \<open>N\<close> times the per-token minimum, with the rounded
  shortfall attached, which is the full requirement when the balance is absent. For an
  account with no balance the code enters the branch and then reads
  \<^verbatim>\<open>storage_balance.available\<close> of \<^verbatim>\<open>null\<close>: the call fails with \<^verbatim>\<open>TypeError\<close> and builds no
  transaction at all.
\<close>

theorem depositTokensOnRef_null_balance:
  "depositTokensOnRef (example_env None (Some example_key))
     [\<lparr>token = ''meta-pool.near'', amount = ''3''\<rparr>, \<lparr>token = ''wrap.near'', amount = ''1''\<rparr>]
   = Inl TypeError"
  by (simp add: recipe_eval)

text \<open>
  Claim C4. The claim says that a balance at or above the requirement gives no
  \<^verbatim>\<open>storage_deposit\<close> and no storage transaction. The comparison in \<open>depositTokensOnRef\<close>
  is \<^verbatim>\<open><=\<close>: with one deposit and an available balance of exactly one per-token
  minimum, the code emits a \<^verbatim>\<open>storage_deposit\<close> of 0 in a transaction of its own, ahead of
  the token transfer.
\<close>

theorem depositTokensOnRef_exact_balance:
  "depositTokensOnRef
     (example_env (Some \<lparr>total = Some ''10000000000000000000000'',
                          available = Some ''5000000000000000000000''\<rparr>) (Some example_key))
     [\<lparr>token = ''wrap.near'', amount = ''1''\<rparr>]
   = Inr [\<lparr>signerId = ''alice.near'', publicKey = ''ed25519:alice'',
            receiverId = ''v2.ref-finance.near'', nonce = 42,
            actions = [\<lparr>methodName = ''storage_deposit'', args = JObject [],
                        gas = 20000000000000, deposit = ''0''\<rparr>],
            blockHash = [3]\<rparr>,
          \<lparr>signerId = ''alice.near'', publicKey = ''ed25519:alice'',
            receiverId = ''wrap.near'', nonce = 42,
            actions = [\<lparr>methodName = ''ft_transfer_call'',
                        args = JObject [(''receiver_id'', JString ''v2.ref-finance.near''),
                                        (''amount'', JString ''1''),
                                        (''msg'', JString [])],
                        gas = 150000000000000, deposit = ''1''\<rparr>],
            blockHash = [3]\<rparr>]"
  by (simp add: recipe_eval)

end
